theory Spec2Isabelle
  imports Main "HOL-Library.Word"
begin

section \<open>The bridging header SkyLightBridge.h\<close>

text \<open>
  The repository's one source file, \<^verbatim>\<open>Wallpaper Scenes/SkyLightBridge.h\<close>, is a C header
  of 23 lines. Apart from comments it holds, in this order,
  \<^verbatim>\<open>
  #pragma once
  #include <CoreFoundation/CoreFoundation.h>
  #include <stdint.h>
  typedef int CGError;
  extern CFArrayRef CGSCopyManagedDisplaySpaces(uint32_t connection);
  extern CGError CGSSetDesktopImageURL(uint32_t connection, int64_t spaceID,
                                       CFURLRef url, CFDictionaryRef options);
  extern uint32_t CGSMainConnectionID(void);
  \<close>
  No function has a body, so there is nothing to run: what the file fixes is a table of
  declarations. The header is embedded as that table, one entry per directive or
  declaration in source order, and the operations below are the ones a compiler performs
  on such a table: collecting the declared names, looking up a prototype, expanding a
  typedef name, reading the value range of an integer type, and including the file into a
  translation unit.
\<close>

subsection \<open>Types, parameters and top-level entries\<close>

text \<open>
  A type as the header spells it: the keywords \<^verbatim>\<open>void\<close> and \<^verbatim>\<open>int\<close>, or a name that
  some typedef has to explain (\<^verbatim>\<open>CGError\<close>, \<^verbatim>\<open>uint32_t\<close>, \<^verbatim>\<open>CFArrayRef\<close>, ...).
\<close>

datatype ctype = C_void | C_int | TypeName string

datatype storage = Extern | Static | No_storage

type_synonym param = "ctype \<times> string"

text \<open>
  The entries a C file can hold at top level, as far as the specification tells them apart. The
  header itself uses \<open>Pragma_once\<close>, \<open>Include\<close>, \<open>Typedef\<close> and \<open>Fun_decl\<close>; the others
  are the kinds of entry the header is said not to contain. A \<open>Fun_decl\<close> is a prototype ending in
  a semicolon; a \<open>Fun_def\<close> carries the statements of a body.
\<close>

datatype item =
    Pragma_once
  | Include string
  | Macro_def string string
  | Typedef ctype string
  | Struct_def string "param list"
  | Var_decl storage ctype string
  | Fun_decl storage ctype string "param list"
  | Fun_def storage ctype string "param list" "string list"

text \<open>
  The header, entry by entry (source lines 12, 14, 15, 18, 21, 22, 23). The parameter
  list \<^verbatim>\<open>(void)\<close> of line 23 declares a function of no parameters and is the empty list.
\<close>

definition SkyLightBridge_h :: "item list" where
  "SkyLightBridge_h =
    [ Pragma_once,
      Include ''CoreFoundation/CoreFoundation.h'',
      Include ''stdint.h'',
      Typedef C_int ''CGError'',
      Fun_decl Extern (TypeName ''CFArrayRef'') ''CGSCopyManagedDisplaySpaces''
        [(TypeName ''uint32_t'', ''connection'')],
      Fun_decl Extern (TypeName ''CGError'') ''CGSSetDesktopImageURL''
        [(TypeName ''uint32_t'', ''connection''), (TypeName ''int64_t'', ''spaceID''),
         (TypeName ''CFURLRef'', ''url''), (TypeName ''CFDictionaryRef'', ''options'')],
      Fun_decl Extern (TypeName ''uint32_t'') ''CGSMainConnectionID'' [] ]"

subsection \<open>The names a file declares\<close>

fun function_name :: "item \<Rightarrow> string option" where
  "function_name (Fun_decl _ _ n _) = Some n"
| "function_name (Fun_def _ _ n _ _) = Some n"
| "function_name _ = None"

fun alias_name :: "item \<Rightarrow> string option" where
  "alias_name (Typedef _ n) = Some n"
| "alias_name _ = None"

fun struct_name :: "item \<Rightarrow> string option" where
  "struct_name (Struct_def n _) = Some n"
| "struct_name _ = None"

fun variable_name :: "item \<Rightarrow> string option" where
  "variable_name (Var_decl _ _ n) = Some n"
| "variable_name _ = None"

fun macro_name :: "item \<Rightarrow> string option" where
  "macro_name (Macro_def n _) = Some n"
| "macro_name _ = None"

fun body_name :: "item \<Rightarrow> string option" where
  "body_name (Fun_def _ _ n _ _) = Some n"
| "body_name _ = None"

fun extern_prototype_name :: "item \<Rightarrow> string option" where
  "extern_prototype_name (Fun_decl Extern _ n _) = Some n"
| "extern_prototype_name _ = None"

definition declared_functions :: "item list \<Rightarrow> string list" where
  "declared_functions h = List.map_filter function_name h"

definition type_aliases :: "item list \<Rightarrow> string list" where
  "type_aliases h = List.map_filter alias_name h"

definition struct_definitions :: "item list \<Rightarrow> string list" where
  "struct_definitions h = List.map_filter struct_name h"

definition declared_variables :: "item list \<Rightarrow> string list" where
  "declared_variables h = List.map_filter variable_name h"

definition declared_macros :: "item list \<Rightarrow> string list" where
  "declared_macros h = List.map_filter macro_name h"

definition defined_functions :: "item list \<Rightarrow> string list" where
  "defined_functions h = List.map_filter body_name h"

definition external_references :: "item list \<Rightarrow> string list" where
  "external_references h = List.map_filter extern_prototype_name h"

subsection \<open>Looking up a prototype\<close>

text \<open>
  The signature a caller sees for a function name: the parameter types in order and the
  result type, from the first entry that declares the name.
\<close>

fun signature_of :: "item list \<Rightarrow> string \<Rightarrow> (ctype list \<times> ctype) option" where
  "signature_of [] f = None"
| "signature_of (Fun_decl _ r n ps # h) f =
     (if n = f then Some (map fst ps, r) else signature_of h f)"
| "signature_of (Fun_def _ r n ps _ # h) f =
     (if n = f then Some (map fst ps, r) else signature_of h f)"
| "signature_of (_ # h) f = signature_of h f"

fun parameters_of :: "item list \<Rightarrow> string \<Rightarrow> param list option" where
  "parameters_of [] f = None"
| "parameters_of (Fun_decl _ _ n ps # h) f =
     (if n = f then Some ps else parameters_of h f)"
| "parameters_of (Fun_def _ _ n ps _ # h) f =
     (if n = f then Some ps else parameters_of h f)"
| "parameters_of (_ # h) f = parameters_of h f"


definition parameter_type :: "item list \<Rightarrow> string \<Rightarrow> string \<Rightarrow> ctype option" where
  "parameter_type h f p =
     (case parameters_of h f of
        None \<Rightarrow> None
      | Some ps \<Rightarrow> map_of (map (\<lambda>(t, n). (n, t)) ps) p)"

definition result_type :: "item list \<Rightarrow> string \<Rightarrow> ctype option" where
  "result_type h f = map_option snd (signature_of h f)"

subsection \<open>Expanding typedef names\<close>

text \<open>
  A typedef name stands for the type it was declared with, and a typedef can only mention
  names declared above it. \<open>resolve_in\<close> walks the entries from the latest to the earliest,
  so the recursion is on the list; a name that no entry of the file explains stays as it
  is (it belongs to an included header).
\<close>

fun resolve_in :: "item list \<Rightarrow> ctype \<Rightarrow> ctype" where
  "resolve_in (Typedef u n # earlier) (TypeName m) =
     (if n = m then resolve_in earlier u else resolve_in earlier (TypeName m))"
| "resolve_in (_ # earlier) t = resolve_in earlier t"
| "resolve_in [] t = t"

definition resolve :: "item list \<Rightarrow> ctype \<Rightarrow> ctype" where
  "resolve h t = resolve_in (rev h) t"

subsection \<open>Integer types and their values\<close>

datatype int_repr = Signed nat | Unsigned nat

text \<open>
  The values of a two's complement integer of \<open>n\<close> bits and of an unsigned integer of
  \<open>n\<close> bits.
\<close>

fun in_range :: "int_repr \<Rightarrow> int \<Rightarrow> bool" where
  "in_range (Signed n) v = (- (2 ^ (n - 1)) \<le> v \<and> v < 2 ^ (n - 1))"
| "in_range (Unsigned n) v = (0 \<le> v \<and> v < 2 ^ n)"

text \<open>
  Modelled from the spec: the exact-width integer typedefs of the system header
  \<^verbatim>\<open><stdint.h>\<close>, which line 15 includes and which is not among the repository's files.
  \<^verbatim>\<open>uint32_t\<close> is read as an unsigned 32-bit integer and \<^verbatim>\<open>int64_t\<close> as a signed 64-bit
  integer in two's complement, which is what the C standard fixes for these names; the
  table lists the whole family.
\<close>

definition stdint_h :: "(string \<times> int_repr) list" where
  "stdint_h =
    [ (''int8_t'', Signed 8), (''int16_t'', Signed 16),
      (''int32_t'', Signed 32), (''int64_t'', Signed 64),
      (''uint8_t'', Unsigned 8), (''uint16_t'', Unsigned 16),
      (''uint32_t'', Unsigned 32), (''uint64_t'', Unsigned 64) ]"

text \<open>
  The representation of a type written in file \<open>h\<close>, on a target whose \<^verbatim>\<open>int\<close> has \<open>w\<close>
  bits (32 on every platform that ships CoreFoundation; the theorems hold for any \<open>w\<close>).
  Typedef names of the file are expanded first; \<^verbatim>\<open>void\<close> and names that are not integer
  types (the CoreFoundation references) have no integer representation.
\<close>

definition repr_of :: "nat \<Rightarrow> item list \<Rightarrow> ctype \<Rightarrow> int_repr option" where
  "repr_of w h t =
     (case resolve h t of
        C_void \<Rightarrow> None
      | C_int \<Rightarrow> Some (Signed w)
      | TypeName n \<Rightarrow> map_of stdint_h n)"

definition is_value_of :: "nat \<Rightarrow> item list \<Rightarrow> ctype \<Rightarrow> int \<Rightarrow> bool" where
  "is_value_of w h t v =
     (case repr_of w h t of None \<Rightarrow> False | Some r \<Rightarrow> in_range r v)"

subsection \<open>Including a file into a translation unit\<close>

text \<open>
  The preprocessor's state while it builds one translation unit: the files it has met a
  \<^verbatim>\<open>#pragma once\<close> in, and the entries it has passed on to the compiler so far.
  Entering a file that is already marked skips it whole. Otherwise the entries are
  processed in order: \<^verbatim>\<open>#pragma once\<close> marks the file, every other entry is passed on
  (the two system headers are not among the repository's files, so their \<^verbatim>\<open>#include\<close>
  lines are passed on unexpanded).
\<close>

record translation_unit =
  marked_once :: "string list"
  emitted :: "item list"

definition empty_unit :: translation_unit where
  "empty_unit = \<lparr> marked_once = [], emitted = [] \<rparr>"

fun process_entry :: "string \<Rightarrow> translation_unit \<Rightarrow> item \<Rightarrow> translation_unit" where
  "process_entry path st Pragma_once = st\<lparr> marked_once := path # marked_once st \<rparr>"
| "process_entry path st entry = st\<lparr> emitted := emitted st @ [entry] \<rparr>"

definition include_file :: "string \<Rightarrow> item list \<Rightarrow> translation_unit \<Rightarrow> translation_unit" where
  "include_file path h st =
     (if path \<in> set (marked_once st) then st else foldl (process_entry path) st h)"

definition include_times ::
  "nat \<Rightarrow> string \<Rightarrow> item list \<Rightarrow> translation_unit \<Rightarrow> translation_unit" where
  "include_times k path h st = (include_file path h ^^ k) st"

section \<open>Supporting facts\<close>

subsection \<open>Lookup agrees with the declared names\<close>

text \<open>
  A name has a signature exactly when the file declares it as a function, and the two
  lookups read the same entry.
\<close>

lemma signature_of_None_iff:
  "(signature_of h f = None) = (f \<notin> set (declared_functions h))"
  by (induction h f rule: signature_of.induct)
     (simp_all add: declared_functions_def map_filter_simps)

lemma parameters_of_signature_of:
  "map_option (map fst) (parameters_of h f) = map_option fst (signature_of h f)"
  by (induction h f rule: signature_of.induct) simp_all

subsection \<open>The ranges are those of machine words\<close>

text \<open>
  The two integer domains that occur in the prototypes are exactly the values of a
  32-bit word read unsigned and of a 64-bit word read in two's complement.
\<close>

lemma in_range_Unsigned_32_word:
  "in_range (Unsigned 32) v = (\<exists>x::32 word. uint x = v)"
proof
  assume "in_range (Unsigned 32) v"
  then have "0 \<le> v" and "v < 2 ^ LENGTH(32)" by simp_all
  then have "uint (word_of_int v :: 32 word) = v"
    by (simp only: uint_word_of_int mod_pos_pos_trivial)
  then show "\<exists>x::32 word. uint x = v" ..
next
  assume "\<exists>x::32 word. uint x = v"
  then obtain x :: "32 word" where x: "uint x = v" ..
  have "0 \<le> uint x" and "uint x < 2 ^ LENGTH(32)"
    by (simp_all only: uint_ge_0 uint_lt2p)
  with x show "in_range (Unsigned 32) v" by simp
qed

lemma in_range_Signed_64_word:
  "in_range (Signed 64) v = (\<exists>x::64 word. sint x = v)"
proof
  assume "in_range (Signed 64) v"
  then have "- (2 ^ (LENGTH(64) - 1)) \<le> v" and "v < 2 ^ (LENGTH(64) - 1)" by simp_all
  then have "sint (word_of_int v :: 64 word) = v"
    by (simp only: sint_sbintrunc' signed_take_bit_int_eq_self)
  then show "\<exists>x::64 word. sint x = v" ..
next
  assume "\<exists>x::64 word. sint x = v"
  then obtain x :: "64 word" where x: "sint x = v" ..
  have "- (2 ^ (LENGTH(64) - 1)) \<le> sint x" and "sint x < 2 ^ (LENGTH(64) - 1)"
    by (rule sint_ge, rule sint_lt)
  with x show "in_range (Signed 64) v" by simp
qed

subsection \<open>Entering the header\<close>

lemma include_file_marks:
  "''SkyLightBridge.h'' \<in>
     set (marked_once (include_file ''SkyLightBridge.h'' SkyLightBridge_h st))"
  by (simp add: include_file_def SkyLightBridge_h_def)

lemma include_file_skips:
  "path \<in> set (marked_once st) \<Longrightarrow> include_file path h st = st"
  by (simp add: include_file_def)

lemma include_times_Suc:
  "include_times (Suc k) path h st = include_file path h (include_times k path h st)"
  by (simp add: include_times_def)

lemma include_times_collapses:
  "include_times (Suc k) ''SkyLightBridge.h'' SkyLightBridge_h st =
   include_file ''SkyLightBridge.h'' SkyLightBridge_h st"
proof (induction k)
  case 0
  show ?case by (simp add: include_times_def)
next
  case (Suc k)
  have "include_times (Suc (Suc k)) ''SkyLightBridge.h'' SkyLightBridge_h st =
        include_file ''SkyLightBridge.h'' SkyLightBridge_h
          (include_times (Suc k) ''SkyLightBridge.h'' SkyLightBridge_h st)"
    by (rule include_times_Suc)
  also have "\<dots> = include_file ''SkyLightBridge.h'' SkyLightBridge_h
          (include_file ''SkyLightBridge.h'' SkyLightBridge_h st)"
    by (simp only: Suc.IH)
  also have "\<dots> = include_file ''SkyLightBridge.h'' SkyLightBridge_h st"
    by (rule include_file_skips) (rule include_file_marks)
  finally show ?case .
qed

lemma emitted_once:
  "emitted (include_file ''SkyLightBridge.h'' SkyLightBridge_h empty_unit) =
   tl SkyLightBridge_h"
  by (simp add: include_file_def empty_unit_def SkyLightBridge_h_def)

text \<open>
  The guard is what makes the difference: the same entries without line 12, included
  twice, reach the compiler twice.
\<close>

lemma without_pragma_once_repeats:
  "type_aliases (emitted (include_times 2 ''SkyLightBridge.h'' (tl SkyLightBridge_h) empty_unit))
     = [''CGError'', ''CGError'']"
  by (simp add: include_times_def include_file_def empty_unit_def SkyLightBridge_h_def
      type_aliases_def numeral_2_eq_2)

section \<open>The declared surface\<close>

text \<open>
  C1. The header's own entries declare exactly three functions,
  \<^verbatim>\<open>CGSCopyManagedDisplaySpaces\<close>, \<^verbatim>\<open>CGSSetDesktopImageURL\<close> and \<^verbatim>\<open>CGSMainConnectionID\<close>,
  and exactly one type alias, \<^verbatim>\<open>CGError\<close>; it declares no struct, no variable and no
  macro. (What the two included system headers declare is theirs, not this file's.)
\<close>

theorem surface_is_three_functions_one_alias:
  "declared_functions SkyLightBridge_h =
     [''CGSCopyManagedDisplaySpaces'', ''CGSSetDesktopImageURL'', ''CGSMainConnectionID'']
   \<and> type_aliases SkyLightBridge_h = [''CGError'']
   \<and> struct_definitions SkyLightBridge_h = []
   \<and> declared_variables SkyLightBridge_h = []
   \<and> declared_macros SkyLightBridge_h = []"
  by (simp add: SkyLightBridge_h_def declared_functions_def type_aliases_def
      struct_definitions_def declared_variables_def declared_macros_def)

text \<open>
  C2. \<^verbatim>\<open>CGSSetDesktopImageURL\<close> takes exactly four parameters, of the types
  \<^verbatim>\<open>uint32_t\<close> (connection), \<^verbatim>\<open>int64_t\<close> (spaceID), \<^verbatim>\<open>CFURLRef\<close> (url) and
  \<^verbatim>\<open>CFDictionaryRef\<close> (options), and its result type is \<^verbatim>\<open>CGError\<close>.
\<close>

theorem CGSSetDesktopImageURL_signature:
  "signature_of SkyLightBridge_h ''CGSSetDesktopImageURL'' =
     Some ([TypeName ''uint32_t'', TypeName ''int64_t'', TypeName ''CFURLRef'',
            TypeName ''CFDictionaryRef''], TypeName ''CGError'')
   \<and> parameters_of SkyLightBridge_h ''CGSSetDesktopImageURL'' =
     Some [(TypeName ''uint32_t'', ''connection''), (TypeName ''int64_t'', ''spaceID''),
           (TypeName ''CFURLRef'', ''url''), (TypeName ''CFDictionaryRef'', ''options'')]
   \<and> map_option length (parameters_of SkyLightBridge_h ''CGSSetDesktopImageURL'') = Some 4"
  by (simp add: SkyLightBridge_h_def)

section \<open>The alias CGError\<close>

text \<open>
  C5. \<^verbatim>\<open>CGError\<close> is a bare alias of \<^verbatim>\<open>int\<close>: the name expands to \<^verbatim>\<open>int\<close> itself, so it
  has the representation of \<^verbatim>\<open>int\<close> and, whatever the width \<open>w\<close> of \<^verbatim>\<open>int\<close>, a value is
  a \<^verbatim>\<open>CGError\<close> exactly when it is an \<^verbatim>\<open>int\<close>.
\<close>

theorem CGError_is_int:
  "resolve SkyLightBridge_h (TypeName ''CGError'') = C_int
   \<and> repr_of w SkyLightBridge_h (TypeName ''CGError'') = repr_of w SkyLightBridge_h C_int
   \<and> is_value_of w SkyLightBridge_h (TypeName ''CGError'') v =
       is_value_of w SkyLightBridge_h C_int v"
  by (simp add: SkyLightBridge_h_def resolve_def repr_of_def is_value_of_def)

section \<open>Nothing is implemented\<close>

text \<open>
  C7. No function of the header has a body: every function entry is an \<^verbatim>\<open>extern\<close>
  prototype. The file holds no variable (so no global state), no struct definition and
  no macro, which are the only other places where data or code could stand.
\<close>

theorem every_function_is_an_external_reference:
  "defined_functions SkyLightBridge_h = []
   \<and> external_references SkyLightBridge_h = declared_functions SkyLightBridge_h
   \<and> length (external_references SkyLightBridge_h) = 3
   \<and> declared_variables SkyLightBridge_h = []
   \<and> struct_definitions SkyLightBridge_h = []
   \<and> declared_macros SkyLightBridge_h = []"
  by (simp add: SkyLightBridge_h_def defined_functions_def external_references_def
      declared_functions_def declared_variables_def struct_definitions_def
      declared_macros_def)

section \<open>Repeated inclusion\<close>

text \<open>
  C8. Including the header one or more times has the effect of including it once, from
  any state of the translation unit. Starting from an empty unit, however often the
  file is included, the compiler receives the alias \<^verbatim>\<open>CGError\<close> once and each of the
  three prototypes once.
\<close>

theorem repeated_inclusion_is_idempotent:
  "include_times (Suc k) ''SkyLightBridge.h'' SkyLightBridge_h st =
     include_file ''SkyLightBridge.h'' SkyLightBridge_h st
   \<and> type_aliases
       (emitted (include_times (Suc k) ''SkyLightBridge.h'' SkyLightBridge_h empty_unit)) =
     [''CGError'']
   \<and> declared_functions
       (emitted (include_times (Suc k) ''SkyLightBridge.h'' SkyLightBridge_h empty_unit)) =
     [''CGSCopyManagedDisplaySpaces'', ''CGSSetDesktopImageURL'', ''CGSMainConnectionID'']"
proof -
  have once: "include_times (Suc k) ''SkyLightBridge.h'' SkyLightBridge_h s =
      include_file ''SkyLightBridge.h'' SkyLightBridge_h s" for s
    by (rule include_times_collapses)
  have out: "emitted (include_times (Suc k) ''SkyLightBridge.h'' SkyLightBridge_h empty_unit) =
      tl SkyLightBridge_h"
    by (simp only: once emitted_once)
  have aliases: "type_aliases
      (emitted (include_times (Suc k) ''SkyLightBridge.h'' SkyLightBridge_h empty_unit)) =
      [''CGError'']"
    unfolding out by (simp add: SkyLightBridge_h_def type_aliases_def)
  have protos: "declared_functions
      (emitted (include_times (Suc k) ''SkyLightBridge.h'' SkyLightBridge_h empty_unit)) =
      [''CGSCopyManagedDisplaySpaces'', ''CGSSetDesktopImageURL'', ''CGSMainConnectionID'']"
    unfolding out by (simp add: SkyLightBridge_h_def declared_functions_def)
  from once [of st] aliases protos show ?thesis
    by (intro conjI)
qed

section \<open>The integer domains of the identifiers\<close>

text \<open>
  C9. The \<^verbatim>\<open>spaceID\<close> parameter of \<^verbatim>\<open>CGSSetDesktopImageURL\<close> is an \<^verbatim>\<open>int64_t\<close>, a signed
  integer of 64 bits whose values are \<open>- 2 ^ 63 \<le> v < 2 ^ 63\<close>, so \<open>-1\<close> is one of them.
  The \<^verbatim>\<open>connection\<close> parameter of both functions that take one, and the result of
  \<^verbatim>\<open>CGSMainConnectionID\<close>, are \<^verbatim>\<open>uint32_t\<close>, an unsigned integer of 32 bits whose values
  are \<open>0 \<le> v < 2 ^ 32\<close>, so \<open>-1\<close> is not one of them.
\<close>

theorem space_and_connection_domains:
  "parameter_type SkyLightBridge_h ''CGSSetDesktopImageURL'' ''spaceID'' =
     Some (TypeName ''int64_t'')
   \<and> repr_of w SkyLightBridge_h (TypeName ''int64_t'') = Some (Signed 64)
   \<and> is_value_of w SkyLightBridge_h (TypeName ''int64_t'') v =
       (- (2 ^ 63) \<le> v \<and> v < 2 ^ 63)
   \<and> is_value_of w SkyLightBridge_h (TypeName ''int64_t'') (- 1)
   \<and> parameter_type SkyLightBridge_h ''CGSSetDesktopImageURL'' ''connection'' =
     Some (TypeName ''uint32_t'')
   \<and> parameter_type SkyLightBridge_h ''CGSCopyManagedDisplaySpaces'' ''connection'' =
     Some (TypeName ''uint32_t'')
   \<and> result_type SkyLightBridge_h ''CGSMainConnectionID'' = Some (TypeName ''uint32_t'')
   \<and> repr_of w SkyLightBridge_h (TypeName ''uint32_t'') = Some (Unsigned 32)
   \<and> is_value_of w SkyLightBridge_h (TypeName ''uint32_t'') v = (0 \<le> v \<and> v < 2 ^ 32)
   \<and> \<not> is_value_of w SkyLightBridge_h (TypeName ''uint32_t'') (- 1)"
  by (simp add: SkyLightBridge_h_def parameter_type_def result_type_def resolve_def
      repr_of_def is_value_of_def stdint_h_def)

end
